theory Spec2Isabelle
  imports Complex_Main "HOL-Library.Product_Lexorder"
begin

section \<open>Boolean run analysis (generic.py)\<close>

text \<open>
  A NumPy array is a list. Python integers are unbounded, so indices, counters and the
  entries of integer arrays are of type \<open>int\<close>. Floating point columns are idealised
  as \<open>real\<close>.
\<close>

subsection \<open>Slice assignment\<close>

text \<open>
  NumPy normalises a slice bound against the length \<open>n\<close> of the array: a negative bound
  counts from the end, and every bound is clipped to \<open>0..n\<close>.
\<close>

definition slice_bound :: "int \<Rightarrow> nat \<Rightarrow> nat" where
  "slice_bound k n = (if k < 0 then nat (max 0 (k + int n)) else min (nat k) n)"

text \<open>\<open>xs[lo:hi] = v\<close>: every position from \<open>lo\<close> up to, not including, \<open>hi\<close> becomes \<open>v\<close>.\<close>

definition assign_slice :: "'a list \<Rightarrow> int \<Rightarrow> int \<Rightarrow> 'a \<Rightarrow> 'a list" where
  "assign_slice xs lo hi v =
     (let n = length xs; a = slice_bound lo n; b = slice_bound hi n
      in map (\<lambda>k. if a \<le> k \<and> k < b then v else xs ! k) [0..<n])"

text \<open>\<open>xs[lo:] = v\<close>: the slice runs to the end of the array.\<close>

definition assign_slice_from :: "'a list \<Rightarrow> int \<Rightarrow> 'a \<Rightarrow> 'a list" where
  "assign_slice_from xs lo v =
     (let n = length xs; a = slice_bound lo n
      in map (\<lambda>k. if a \<le> k then v else xs ! k) [0..<n])"

subsection \<open>items_since_last_true\<close>

text \<open>
  The loop body of \<open>items_since_last_true\<close>, on the pair \<open>(i, value)\<close> that
  \<open>enumerate\<close> yields; the state is \<open>(last_true_index, result)\<close>.
\<close>

definition items_step :: "nat \<times> bool \<Rightarrow> int \<times> int list \<Rightarrow> int \<times> int list" where
  "items_step iv st =
     (case iv of (i, value) \<Rightarrow> case st of (last_true_index, result) \<Rightarrow>
        (let last_true_index' = (if value then int i else last_true_index)
         in (last_true_index', result[i := int i - last_true_index'])))"

definition items_since_last_true :: "bool list \<Rightarrow> int list" where
  "items_since_last_true array =
     snd (fold items_step (enumerate 0 array) (- 1, replicate (length array) 0))"

subsection \<open>fill_gaps\<close>

text \<open>
  The loop body of \<open>fill_gaps\<close> at index \<open>i\<close>; the state is
  \<open>(false_series_lengths, current_length)\<close>.
\<close>

definition fill_gaps_step :: "bool list \<Rightarrow> nat \<Rightarrow> int list \<times> int \<Rightarrow> int list \<times> int" where
  "fill_gaps_step arr i st =
     (case st of (false_series_lengths, current_length) \<Rightarrow>
        if arr ! i = False then (false_series_lengths, current_length + 1)
        else (assign_slice false_series_lengths (int i - current_length) (int i) current_length, 0))"

text \<open>The array of false-run lengths after the loop and the fix-up of the trailing run.\<close>

definition false_series_lengths :: "bool list \<Rightarrow> int list" where
  "false_series_lengths arr =
     (case fold (fill_gaps_step arr) [0..<length arr] (replicate (length arr) 0, 0) of
        (lengths, current_length) \<Rightarrow>
          if current_length > 0 then assign_slice_from lengths (- current_length) current_length
          else lengths)"

definition fill_gaps :: "bool list \<Rightarrow> int \<Rightarrow> bool list" where
  "fill_gaps arr max_gap = map (\<lambda>l. l \<le> max_gap) (false_series_lengths arr)"

text \<open>
  The specification's notion of a maximal run of consecutive false values: the positions
  \<open>p..<q\<close> are all false, and the run is closed on each side by a true value or by the
  end of the series.
\<close>

definition false_run :: "bool list \<Rightarrow> nat \<Rightarrow> nat \<Rightarrow> bool" where
  "false_run s p q =
     (p < q \<and> q \<le> length s \<and> (\<forall>k\<in>{p..<q}. \<not> s ! k) \<and>
      (p = 0 \<or> s ! (p - 1)) \<and> (q = length s \<or> s ! q))"


section \<open>Weather analysis (weather.py)\<close>

subsection \<open>The hourly table\<close>

text \<open>
  A timestamp of the hourly index is a calendar day and an hour of that day, ordered
  lexicographically. \<open>day.strftime("%Y-%m-%d")\<close> keeps the calendar day of a
  requested date, so a requested date is a value of type \<open>day\<close>.
\<close>

type_synonym day = nat

type_synonym timestamp = "day \<times> nat"

record observation =
  date :: timestamp
  precipitation :: real
  vapour_pressure_deficit :: real
  temperature_2m :: real
  relative_humidity_2m :: real

text \<open>A data frame is the list of its rows, in index order.\<close>

type_synonym dataframe = "observation list"

text \<open>
  The exceptions of a call. \<open>KeyError\<close> is raised by the table lookup. \<open>TypeError\<close> and
  \<open>AttributeError\<close> are raised when a single row, not a frame, reaches code written for
  frames. \<open>MissingDataError\<close> is the error the specification names; the source neither
  defines nor raises it.
\<close>

datatype error = KeyError | TypeError | AttributeError | MissingDataError

text \<open>
  What a lookup by label returns: a frame of rows, or, when the label matches one index
  entry exactly, that row alone as a pandas \<open>Series\<close>.
\<close>

datatype selection = Frame dataframe | Series observation

text \<open>The rows of a calendar day, in index order.\<close>

definition day_rows :: "dataframe \<Rightarrow> day \<Rightarrow> dataframe" where
  "day_rows df key = filter (\<lambda>row. fst (date row) = key) df"

text \<open>
  The resolution of a datetime index is the finest one among its timestamps; it is a
  whole day when every timestamp is at midnight, and also for an empty index.
\<close>

definition day_resolution :: "dataframe \<Rightarrow> bool" where
  "day_resolution df = list_all (\<lambda>row. snd (date row) = 0) df"

text \<open>
  A day lies beyond a sorted index when the whole day is before the first or after
  the last timestamp.
\<close>

definition beyond_index :: "dataframe \<Rightarrow> day \<Rightarrow> bool" where
  "beyond_index df key =
     (sorted (map date df) \<and> (key < fst (date (hd df)) \<or> fst (date (last df)) < key))"

text \<open>
  \<open>df_weather.loc[key]\<close> with a day string as key is the lookup of the pandas library,
  whose code is not part of the repository. Its cases on a datetime index:
  \<^item> When the index has day resolution, the day string is an exact key: no matching
    entry raises \<open>KeyError\<close>, a single matching entry is returned as a \<open>Series\<close>, several
    as a frame.
  \<^item> When the index has a finer resolution, the day string selects a slice. A day
    beyond a sorted index raises \<open>KeyError\<close>; any other day yields the frame of its rows,
    which is empty for a day inside the range that has no rows.
  \<^item> On an index that is not sorted the rows are selected by a mask, and the frame is
    empty when none matches.
\<close>

definition loc :: "dataframe \<Rightarrow> day \<Rightarrow> error + selection" where
  "loc df key =
     (if day_resolution df then
        (case day_rows df key of
           [] \<Rightarrow> Inl KeyError
         | [row] \<Rightarrow> Inr (Series row)
         | rows \<Rightarrow> Inr (Frame rows))
      else if beyond_index df key then Inl KeyError
      else Inr (Frame (day_rows df key)))"

subsection \<open>Array helpers\<close>

text \<open>\<open>np.sum\<close> of a boolean array counts its true entries.\<close>

definition count_true :: "bool list \<Rightarrow> int" where
  "count_true bs = sum_list (map (\<lambda>b. if b then 1 else 0) bs)"

text \<open>\<open>np.any\<close> of a boolean array.\<close>

definition any :: "bool list \<Rightarrow> bool" where
  "any bs = list_ex (\<lambda>b. b) bs"

text \<open>
  The arithmetic mean (\<open>np.mean\<close>). The source takes it of a non-empty array only: of a
  prefix ending at an existing index.
\<close>

definition mean :: "real list \<Rightarrow> real" where
  "mean xs = sum_list xs / real (length xs)"

text \<open>
  Modelled from the spec: \<open>label\<close> is \<open>scipy.ndimage.label\<close>, a library function whose
  code is not part of the repository. On a one-dimensional boolean array it labels the
  connected components of true values: labels are positive integers assigned in
  left-to-right order of first appearance, 0 is reserved for false, and the number of
  components is returned with the labels. \<open>label_from prev n\<close> labels the rest of the array
  when the previous entry was \<open>prev\<close> and \<open>n\<close> components have been seen.
\<close>

fun label_from :: "bool \<Rightarrow> int \<Rightarrow> bool list \<Rightarrow> int list \<times> int" where
  "label_from prev n [] = ([], n)"
| "label_from prev n (x # xs) =
     (if x then
        (let m = (if prev then n else n + 1)
         in case label_from True m xs of (ls, k) \<Rightarrow> (m # ls, k))
      else (case label_from False n xs of (ls, k) \<Rightarrow> (0 # ls, k)))"

definition label :: "bool list \<Rightarrow> int list \<times> int" where
  "label xs = label_from False 0 xs"

subsection \<open>Wetness and rain events\<close>

definition is_wet :: "real \<Rightarrow> real \<Rightarrow> bool" where
  "is_wet precip vpd =
     (let precipitation_threshold = 0.0;
          vapour_pressure_deficit_threshold = 0.25
      in precip > precipitation_threshold \<or> vpd < vapour_pressure_deficit_threshold)"

text \<open>The row-wise application of \<open>is_wet\<close> to a data frame.\<close>

definition wet_rows :: "dataframe \<Rightarrow> bool list" where
  "wet_rows df = map (\<lambda>row. is_wet (precipitation row) (vapour_pressure_deficit row)) df"

definition compute_leaf_wetness_duration :: "dataframe \<Rightarrow> int" where
  "compute_leaf_wetness_duration df_weather_day = count_true (wet_rows df_weather_day)"

definition is_rain_event :: "dataframe \<Rightarrow> real \<Rightarrow> int \<Rightarrow> bool list" where
  "is_rain_event df_weather_day threshold max_gap =
     (let precip = map precipitation df_weather_day;
          rain = map (\<lambda>p. p \<ge> threshold) precip
      in fill_gaps rain max_gap)"

subsection \<open>The infection period\<close>

text \<open>
  The result is the pair \<open>(wet_hours, average_temperature)\<close>; Python's \<open>None\<close> is
  \<open>None\<close>.
\<close>

definition compute_duration_and_temperature_wet_period :: "dataframe \<Rightarrow> int \<times> real option" where
  "compute_duration_and_temperature_wet_period df_weather_infection =
     (let wet = wet_rows df_weather_infection;
          temperature = map temperature_2m df_weather_infection;
          wet_filled = fill_gaps wet 4;
          wet_periods = fst (label wet_filled);
          indices = filter (\<lambda>i. wet_periods ! i = 2 \<and> wet ! i = True) [0..<length wet]
      in if length indices > 0 then
           (let last_index = last indices;
                wet_hours = count_true (take (last_index + 1) wet);
                average_temperature = mean (take (last_index + 1) temperature)
            in (wet_hours, Some average_temperature))
         else (0, None))"

subsection \<open>Daily summary\<close>

text \<open>
  The mean of a column of a frame (pandas \<open>Series.mean\<close>). The mean of an empty column is
  NaN, which is \<open>None\<close> here.
\<close>

definition column_mean :: "real list \<Rightarrow> real option" where
  "column_mean xs = (if xs = [] then None else Some (mean xs))"

text \<open>A row of the daily summary; a \<open>Temperature\<close> of \<open>None\<close> is NaN.\<close>

record summary_row =
  Date :: day
  LeafWetness :: real
  HasRain :: real
  Precipitation :: real
  Temperature :: "real option"
  HumidDuration :: int

text \<open>
  The body of the loop of \<open>WeatherSummary.__init__\<close> for the frame of one day: the values
  appended to the columns of \<open>result_data\<close>. Over an empty frame every count and sum is 0
  and the mean is NaN.
\<close>

definition weather_summary_row :: "day \<Rightarrow> dataframe \<Rightarrow> summary_row" where
  "weather_summary_row day df_weather_day =
     (let leaf_wetness = of_int (compute_leaf_wetness_duration df_weather_day);
          has_rain_event = (if any (is_rain_event df_weather_day 0.2 2) then 1 else 0);
          total_precipitation = sum_list (map precipitation df_weather_day);
          avg_temperature = column_mean (map temperature_2m df_weather_day);
          hours_humid =
            int (length (filter (\<lambda>row. relative_humidity_2m row > 85.0) df_weather_day))
      in \<lparr>Date = day, LeafWetness = leaf_wetness, HasRain = has_rain_event,
          Precipitation = total_precipitation, Temperature = avg_temperature,
          HumidDuration = hours_humid\<rparr>)"

text \<open>
  The loop of \<open>WeatherSummary.__init__\<close> over the requested days; \<open>result_data\<close> holds the
  rows collected so far. An exception ends the loop and the call: that of the lookup,
  or, when the lookup returns a \<open>Series\<close>, the \<open>TypeError\<close> of
  \<open>compute_leaf_wetness_duration\<close>, whose \<open>apply(..., axis=1)\<close> hands the keyword \<open>axis\<close>
  on to the function applied to the entries of a \<open>Series\<close>.
\<close>

fun weather_summary_loop :: "dataframe \<Rightarrow> day list \<Rightarrow> summary_row list \<Rightarrow> error + summary_row list" where
  "weather_summary_loop df_weather [] result_data = Inr result_data"
| "weather_summary_loop df_weather (day # dates) result_data =
     (case loc df_weather day of
        Inl e \<Rightarrow> Inl e
      | Inr (Series row) \<Rightarrow> Inl TypeError
      | Inr (Frame df_weather_day) \<Rightarrow>
          weather_summary_loop df_weather dates
            (result_data @ [weather_summary_row day df_weather_day]))"

definition summarize_weather :: "day list \<Rightarrow> dataframe \<Rightarrow> error + summary_row list" where
  "summarize_weather dates df_weather = weather_summary_loop df_weather dates []"

subsection \<open>Hourly rain summary\<close>





section \<open>Auxiliary notions\<close>

text \<open>
  \<open>run_length_at s k l\<close>: \<open>l\<close> is the length of the maximal false run of \<open>s\<close> around
  position \<open>k\<close>, and 0 at a true position.
\<close>

definition run_length_at :: "bool list \<Rightarrow> nat \<Rightarrow> int \<Rightarrow> bool" where
  "run_length_at s k l =
     (if s ! k then l = 0
      else (\<exists>p q. p \<le> k \<and> k < q \<and> false_run s p q \<and> l = int (q - p)))"

text \<open>
  The invariant of the loop of \<open>fill_gaps\<close> before iteration \<open>i\<close>: the last
  \<open>current_length\<close> positions before \<open>i\<close> form an open false run, every position
  before that run holds the length of its run, and the rest of the array is still 0.
\<close>

definition fill_inv :: "bool list \<Rightarrow> nat \<Rightarrow> int list \<times> int \<Rightarrow> bool" where
  "fill_inv s i st = (case st of (F, c) \<Rightarrow>
     length F = length s \<and> 0 \<le> c \<and> nat c \<le> i \<and>
     (\<forall>k. i - nat c \<le> k \<and> k < i \<longrightarrow> \<not> s ! k) \<and>
     (i - nat c = 0 \<or> s ! (i - nat c - 1)) \<and>
     (\<forall>k < i - nat c. run_length_at s k (F ! k)) \<and>
     (\<forall>k. i - nat c \<le> k \<and> k < length s \<longrightarrow> F ! k = 0))"

text \<open>
  The recurrence that \<open>items_since_last_true\<close> computes: 0 at a true position, one more
  than at the previous position otherwise, counting from a virtual true at index \<open>-1\<close>.
\<close>

fun since :: "bool list \<Rightarrow> nat \<Rightarrow> int" where
  "since s 0 = (if s ! 0 then 0 else 1)"
| "since s (Suc k) = (if s ! Suc k then 0 else since s k + 1)"


section \<open>Example inputs\<close>

text \<open>
  Rows of day \<open>d\<close> from hour \<open>h\<close> on, one per pair of a precipitation and a temperature;
  the vapour pressure deficit is 1 kPa, so an hour is wet exactly when it has
  precipitation.
\<close>

fun sample_rows :: "day \<Rightarrow> nat \<Rightarrow> (real \<times> real) list \<Rightarrow> dataframe" where
  "sample_rows d h [] = []"
| "sample_rows d h (pt # pts) =
     \<lparr>date = (d, h), precipitation = fst pt, vapour_pressure_deficit = 1,
      temperature_2m = snd pt, relative_humidity_2m = 50\<rparr> # sample_rows d (Suc h) pts"

text \<open>
  The 36 hours of the example of Rossi et al.: 8 wet, 2 dry, 6 wet, 8 dry, 12 wet, at 0
  degrees for the first 16 hours and at 36 degrees after them.
\<close>

definition rossi_window :: dataframe where
  "rossi_window =
     sample_rows 0 0
       (replicate 8 (1, 0) @ replicate 2 (0, 0) @ replicate 6 (1, 0) @
        replicate 8 (0, 36) @ replicate 12 (1, 36))"

text \<open>A day of 10 hours with measurable rain in the hours 2 and 5.\<close>

definition rain_day :: dataframe where
  "rain_day =
     sample_rows 0 0
       [(0, 10), (0, 10), (0.3, 10), (0, 10), (0, 10), (0.4, 10), (0, 10), (0, 10), (0, 10),
        (0, 10)]"

text \<open>Four hours with one dry hour between wet ones: a single wet period.\<close>

definition bridged_window :: dataframe where
  "bridged_window = sample_rows 0 0 [(1, 10), (1, 11), (0, 12), (1, 13)]"

text \<open>
  A series of three hours: the last two hours of day 3 and the first hour of day 4.
\<close>

definition two_days :: dataframe where
  "two_days = sample_rows 3 22 [(0, 10), (0.5, 11)] @ sample_rows 4 0 [(0.1, 9)]"

text \<open>
  A sorted series with a hole: the last hour of day 3 and the first of day 5, no row of
  day 4.
\<close>

definition holed :: dataframe where
  "holed = sample_rows 3 23 [(0, 10)] @ sample_rows 5 0 [(0.5, 11)]"




section \<open>The loop of fill_gaps\<close>

lemma assign_slice_length [simp]: "length (assign_slice xs lo hi v) = length xs"
  by (simp add: assign_slice_def Let_def)

lemma assign_slice_from_length [simp]: "length (assign_slice_from xs lo v) = length xs"
  by (simp add: assign_slice_from_def Let_def)

lemma assign_slice_nth:
  assumes "0 \<le> lo" "lo \<le> hi" "nat hi \<le> length xs" "k < length xs"
  shows "assign_slice xs lo hi v ! k = (if nat lo \<le> k \<and> k < nat hi then v else xs ! k)"
  using assms by (simp add: assign_slice_def Let_def slice_bound_def min_def)

lemma assign_slice_from_nth:
  assumes "0 < c" "nat c \<le> length xs" "k < length xs"
  shows "assign_slice_from xs (- c) v ! k = (if length xs - nat c \<le> k then v else xs ! k)"
proof -
  have "nat (max 0 (- c + int (length xs))) = length xs - nat c"
    using assms by simp
  with assms show ?thesis
    by (simp add: assign_slice_from_def Let_def slice_bound_def)
qed

lemma fill_inv_init: "fill_inv s 0 (replicate (length s) 0, 0)"
  by (simp add: fill_inv_def)

lemma fill_inv_step:
  assumes i: "i < length s" and inv: "fill_inv s i st"
  shows "fill_inv s (Suc i) (fill_gaps_step s i st)"
proof -
  obtain F c where st: "st = (F, c)" by (cases st)
  define a where "a = i - nat c"
  from inv have len: "length F = length s" and c0: "0 \<le> c" and ci: "nat c \<le> i"
    and fls: "\<forall>k. a \<le> k \<and> k < i \<longrightarrow> \<not> s ! k"
    and left: "a = 0 \<or> s ! (a - 1)"
    and prev: "\<forall>k < a. run_length_at s k (F ! k)"
    and zero: "\<forall>k. a \<le> k \<and> k < length s \<longrightarrow> F ! k = 0"
    unfolding st fill_inv_def a_def prod.case by blast+
  show ?thesis
  proof (cases "s ! i")
    case False
    have a': "Suc i - nat (c + 1) = a" using c0 ci by (simp add: a_def nat_add_distrib)
    have "\<forall>k. a \<le> k \<and> k < Suc i \<longrightarrow> \<not> s ! k"
      using fls False by (auto simp: less_Suc_eq)
    moreover have "0 \<le> c + 1" "nat (c + 1) \<le> Suc i" using c0 ci by auto
    ultimately have "fill_inv s (Suc i) (F, c + 1)"
      unfolding fill_inv_def prod.case a' using len left prev zero by blast
    moreover have "fill_gaps_step s i st = (F, c + 1)"
      using False by (simp add: st fill_gaps_step_def)
    ultimately show ?thesis by simp
  next
    case True
    define G where "G = assign_slice F (int i - c) (int i) c"
    have lo: "0 \<le> int i - c" "int i - c \<le> int i" "nat (int i) \<le> length F"
      using c0 ci i len by auto
    have nlo: "nat (int i - c) = a" using c0 ci by (simp add: a_def nat_diff_distrib')
    have G_nth: "G ! k = (if a \<le> k \<and> k < i then c else F ! k)" if "k < length s" for k
      using assign_slice_nth[OF lo, of k c] that len nlo by (simp add: G_def)
    have run: "false_run s a i" if "a < i"
      using that fls left i True by (auto simp: false_run_def)
    have ca: "c = int (i - a)" using c0 ci by (simp add: a_def)
    have all: "run_length_at s k (G ! k)" if k: "k < Suc i" for k
    proof (cases "k < a")
      case True
      then have "G ! k = F ! k" using G_nth[of k] k i by simp
      with prev True show ?thesis by simp
    next
      case False
      show ?thesis
      proof (cases "k = i")
        case True
        then have "G ! k = 0" using G_nth[of k] i zero False by simp
        with \<open>s ! i\<close> True show ?thesis by (simp add: run_length_at_def)
      next
        case False
        with k \<open>\<not> k < a\<close> have ak: "a \<le> k" "k < i" by auto
        then have "G ! k = int (i - a)" using G_nth[of k] i ca by simp
        with run ak have "a \<le> k \<and> k < i \<and> false_run s a i \<and> G ! k = int (i - a)"
          by simp
        then have "\<exists>p q. p \<le> k \<and> k < q \<and> false_run s p q \<and> G ! k = int (q - p)"
          by blast
        moreover have "\<not> s ! k" using fls ak by simp
        ultimately show ?thesis by (simp only: run_length_at_def if_False)
      qed
    qed
    have zero': "\<forall>k. Suc i \<le> k \<and> k < length s \<longrightarrow> G ! k = 0"
      using G_nth zero c0 ci by (auto simp: a_def)
    have lenG: "length G = length s" by (simp add: G_def len)
    have "fill_gaps_step s i st = (G, 0)"
      using True by (simp add: st fill_gaps_step_def G_def)
    then show ?thesis
      unfolding fill_inv_def using True lenG all zero' by auto
  qed
qed

lemma fill_inv_fold:
  "i \<le> length s \<Longrightarrow>
   fill_inv s i (fold (fill_gaps_step s) [0..<i] (replicate (length s) 0, 0))"
proof (induction i)
  case 0
  show ?case by (simp add: fill_inv_init)
next
  case (Suc i)
  then show ?case by (simp add: fill_inv_step)
qed

lemma false_series_lengths_length [simp]: "length (false_series_lengths s) = length s"
  using fill_inv_fold[of "length s" s]
  by (auto simp: false_series_lengths_def fill_inv_def split: prod.splits)

lemma false_series_lengths_nth:
  assumes k: "k < length s"
  shows "run_length_at s k (false_series_lengths s ! k)"
proof -
  obtain F c where fc: "fold (fill_gaps_step s) [0..<length s] (replicate (length s) 0, 0) = (F, c)"
    by (cases "fold (fill_gaps_step s) [0..<length s] (replicate (length s) 0, 0)")
  define n where "n = length s"
  define a where "a = n - nat c"
  from fill_inv_fold[of "length s" s]
  have len: "length F = n" and c0: "0 \<le> c" and ci: "nat c \<le> n"
    and fls: "\<forall>k. a \<le> k \<and> k < n \<longrightarrow> \<not> s ! k"
    and left: "a = 0 \<or> s ! (a - 1)"
    and prev: "\<forall>k < a. run_length_at s k (F ! k)"
    and zero: "\<forall>k. a \<le> k \<and> k < n \<longrightarrow> F ! k = 0"
    unfolding fc fill_inv_def a_def n_def prod.case by blast+
  show ?thesis
  proof (cases "0 < c")
    case False
    then have "c = 0" using c0 by simp
    then have "a = n" by (simp add: a_def)
    moreover have "false_series_lengths s = F"
      using fc \<open>c = 0\<close> by (simp add: false_series_lengths_def)
    ultimately show ?thesis using prev k by (simp add: n_def)
  next
    case True
    have eq: "false_series_lengths s = assign_slice_from F (- c) c"
      using fc True by (simp add: false_series_lengths_def)
    have nth: "false_series_lengths s ! k = (if a \<le> k then c else F ! k)"
      using assign_slice_from_nth[OF True, of F k c] ci len k
      by (simp add: eq a_def n_def)
    show ?thesis
    proof (cases "k < a")
      case True
      with nth prev show ?thesis by simp
    next
      case False
      have "a < n" using \<open>0 < c\<close> ci by (simp add: a_def)
      then have run: "false_run s a n" using fls left by (auto simp: false_run_def n_def)
      have "c = int (n - a)" using c0 ci by (simp add: a_def)
      with nth False have "false_series_lengths s ! k = int (n - a)" by simp
      with run False k
      have "a \<le> k \<and> k < n \<and> false_run s a n \<and> false_series_lengths s ! k = int (n - a)"
        by (simp add: n_def)
      then have "\<exists>p q. p \<le> k \<and> k < q \<and> false_run s p q \<and>
                  false_series_lengths s ! k = int (q - p)"
        by blast
      moreover have "\<not> s ! k" using fls False k by (simp add: n_def)
      ultimately show ?thesis by (simp only: run_length_at_def if_False)
    qed
  qed
qed

lemma false_run_unique:
  assumes "false_run s p q" "false_run s p' q'" "p \<le> k" "k < q" "p' \<le> k" "k < q'"
  shows "p = p' \<and> q = q'"
proof -
  have *: "p \<le> p'" if "false_run s p q" "false_run s p' q'" "p \<le> k" "k < q" "p' \<le> k" "k < q'" for p q p' q' k
  proof (rule ccontr)
    assume "\<not> p \<le> p'"
    then have "p' < p" by simp
    then have "p' \<le> p - 1" "p - 1 < q'" "p \<noteq> 0" using that by auto
    then have "\<not> s ! (p - 1)" using that(2) by (auto simp: false_run_def)
    with \<open>p \<noteq> 0\<close> that(1) show False by (auto simp: false_run_def)
  qed
  have **: "q \<le> q'" if "false_run s p q" "false_run s p' q'" "p \<le> k" "k < q" "p' \<le> k" "k < q'" for p q p' q' k
  proof (rule ccontr)
    assume "\<not> q \<le> q'"
    then have "q' < q" by simp
    then have "p \<le> q'" "q' < q" "q' \<noteq> length s" using that by (auto simp: false_run_def)
    then have "\<not> s ! q'" using that(1) by (auto simp: false_run_def)
    with \<open>q' \<noteq> length s\<close> that(2) show False by (auto simp: false_run_def)
  qed
  show ?thesis using *[OF assms] *[OF assms(2,1,5,6,3,4)] **[OF assms] **[OF assms(2,1,5,6,3,4)]
    by simp
qed


section \<open>The loop of items_since_last_true\<close>

lemma items_fold:
  assumes "i \<le> length s"
  shows "\<exists>R. fold items_step (enumerate 0 (take i s)) (- 1, replicate (length s) 0)
              = (if i = 0 then - 1 else int (i - 1) - since s (i - 1), R) \<and>
             length R = length s \<and> (\<forall>k<i. R ! k = since s k)"
  using assms
proof (induction i)
  case 0
  show ?case by simp
next
  case (Suc i)
  then have i: "i < length s" by simp
  from Suc obtain R where
    R: "fold items_step (enumerate 0 (take i s)) (- 1, replicate (length s) 0)
          = (if i = 0 then - 1 else int (i - 1) - since s (i - 1), R)"
    and len: "length R = length s" and prev: "\<forall>k<i. R ! k = since s k"
    by auto
  define l where "l = (if i = 0 then - 1 else int (i - 1) - since s (i - 1))"
  define l' where "l' = (if s ! i then int i else l)"
  have en: "enumerate 0 (take (Suc i) s) = enumerate 0 (take i s) @ [(i, s ! i)]"
    using i by (simp add: take_Suc_conv_app_nth enumerate_append_eq)
  have step: "fold items_step (enumerate 0 (take (Suc i) s)) (- 1, replicate (length s) 0)
          = (l', R[i := int i - l'])"
    using R by (simp add: en items_step_def l_def l'_def Let_def)
  have val: "int i - l' = since s i"
    by (cases i) (auto simp: l'_def l_def)
  have "\<forall>k<Suc i. R[i := int i - l'] ! k = since s k"
    using prev val len i by (auto simp: less_Suc_eq nth_list_update)
  moreover have "l' = int (Suc i - 1) - since s (Suc i - 1)"
    using val by simp
  ultimately show ?case using step len by simp
qed

lemma items_since_last_true_length [simp]:
  "length (items_since_last_true s) = length s"
  using items_fold[of "length s" s] by (auto simp: items_since_last_true_def)

lemma items_since_last_true_nth:
  "k < length s \<Longrightarrow> items_since_last_true s ! k = since s k"
  using items_fold[of "length s" s] by (auto simp: items_since_last_true_def)

lemma since_nonneg: "0 \<le> since s k"
  by (induction k) auto

lemma since_zero_iff: "since s k = 0 \<longleftrightarrow> s ! k"
  using since_nonneg[of s "k - 1"] by (cases k) auto

lemma since_no_true: "(\<forall>j\<le>k. \<not> s ! j) \<Longrightarrow> since s k = int k + 1"
  by (induction k) auto

lemma since_run:
  "i \<le> k \<Longrightarrow> (\<forall>m. i < m \<and> m \<le> k \<longrightarrow> \<not> s ! m) \<Longrightarrow> since s k = since s i + int (k - i)"
proof (induction k)
  case 0
  then show ?case by simp
next
  case (Suc k)
  show ?case
  proof (cases "i = Suc k")
    case True
    then show ?thesis by simp
  next
    case False
    with Suc.prems have "i \<le> k" "\<not> s ! Suc k" by auto
    moreover from Suc.prems have "\<forall>m. i < m \<and> m \<le> k \<longrightarrow> \<not> s ! m" by auto
    ultimately show ?thesis using Suc.IH by (simp add: Suc_diff_le)
  qed
qed

lemma since_last_true:
  assumes "j \<le> i" "s ! j" "\<forall>m. j < m \<and> m \<le> i \<longrightarrow> \<not> s ! m"
  shows "since s i = int i - int j"
  using since_run[OF assms(1,3)] assms(1,2) since_zero_iff[of s j] by simp


section \<open>What fill_gaps computes\<close>

lemma fill_gaps_length [simp]: "length (fill_gaps s g) = length s"
  by (simp add: fill_gaps_def)

lemma fill_gaps_nth:
  assumes k: "k < length s"
  shows "fill_gaps s g ! k \<longleftrightarrow>
           (if s ! k then 0 \<le> g
            else (\<exists>p q. p \<le> k \<and> k < q \<and> false_run s p q \<and> int (q - p) \<le> g))"
proof -
  have nth: "fill_gaps s g ! k \<longleftrightarrow> false_series_lengths s ! k \<le> g"
    using k by (simp add: fill_gaps_def)
  show ?thesis
  proof (cases "s ! k")
    case True
    with false_series_lengths_nth[OF k] nth show ?thesis
      by (simp add: run_length_at_def)
  next
    case False
    with false_series_lengths_nth[OF k] obtain p q where
      pq: "p \<le> k" "k < q" "false_run s p q" "false_series_lengths s ! k = int (q - p)"
      by (auto simp: run_length_at_def)
    have "int (q - p) \<le> g"
      if "p' \<le> k" "k < q'" "false_run s p' q'" "int (q' - p') \<le> g" for p' q'
      using false_run_unique[OF pq(3) that(3) pq(1,2) that(1,2)] that(4) by simp
    with pq have "(\<exists>p q. p \<le> k \<and> k < q \<and> false_run s p q \<and> int (q - p) \<le> g)
                    \<longleftrightarrow> false_series_lengths s ! k \<le> g"
      by metis
    with nth False show ?thesis by (simp only: if_False)
  qed
qed

lemma false_run_not_true: "false_run s p q \<Longrightarrow> p \<le> k \<Longrightarrow> k < q \<Longrightarrow> \<not> s ! k"
  by (simp add: false_run_def)

lemma false_run_bound: "false_run s p q \<Longrightarrow> q \<le> length s"
  by (simp add: false_run_def)

lemma fill_gaps_true_iff:
  assumes "0 \<le> g" "k < length s"
  shows "fill_gaps s g ! k \<longleftrightarrow>
           s ! k \<or> (\<exists>p q. p \<le> k \<and> k < q \<and> false_run s p q \<and> int (q - p) \<le> g)"
  using fill_gaps_nth[OF assms(2), of g] assms(1) false_run_not_true[of s _ _ k]
  by (cases "s ! k") auto

lemma fill_gaps_in_run:
  assumes "false_run s p q" "p \<le> k" "k < q"
  shows "fill_gaps s g ! k \<longleftrightarrow> int (q - p) \<le> g"
proof -
  have k: "k < length s" using assms false_run_bound[of s p q] by simp
  have nk: "\<not> s ! k" using assms by (rule false_run_not_true)
  show ?thesis
  proof
    assume "fill_gaps s g ! k"
    with fill_gaps_nth[OF k, of g] nk obtain p' q' where
      "p' \<le> k" "k < q'" "false_run s p' q'" "int (q' - p') \<le> g" by auto
    with false_run_unique[OF assms(1) this(3) assms(2,3) this(1,2)] show "int (q - p) \<le> g"
      by simp
  next
    assume "int (q - p) \<le> g"
    with assms nk fill_gaps_nth[OF k, of g] show "fill_gaps s g ! k" by auto
  qed
qed

lemma fill_gaps_all_false:
  assumes "\<forall>i<length s. \<not> s ! i" "int (length s) \<le> g"
  shows "fill_gaps s g = replicate (length s) True"
proof (rule nth_equalityI)
  show "length (fill_gaps s g) = length (replicate (length s) True)" by simp
next
  fix i assume "i < length (fill_gaps s g)"
  then have i: "i < length s" by simp
  then have "false_run s 0 (length s)" using assms(1) by (auto simp: false_run_def)
  from fill_gaps_in_run[OF this, of i g] i assms(2)
  show "fill_gaps s g ! i = replicate (length s) True ! i" by simp
qed

lemma fill_gaps_negative:
  assumes "g < 0" "k < length s"
  shows "\<not> fill_gaps s g ! k"
  using fill_gaps_nth[OF assms(2), of g] assms(1) by (auto split: if_splits)

lemma fill_gaps_idem:
  assumes g: "0 \<le> g"
  shows "fill_gaps (fill_gaps s g) g = fill_gaps s g"
proof (rule nth_equalityI)
  show "length (fill_gaps (fill_gaps s g) g) = length (fill_gaps s g)" by simp
next
  fix k assume "k < length (fill_gaps (fill_gaps s g) g)"
  then have k: "k < length s" by simp
  define t where "t = fill_gaps s g"
  have lt: "length t = length s" by (simp add: t_def)
  show "fill_gaps (fill_gaps s g) g ! k = fill_gaps s g ! k"
  proof (cases "t ! k")
    case True
    then show ?thesis using fill_gaps_true_iff[OF g, of k t] k lt by (simp add: t_def)
  next
    case False
    then have nk: "\<not> s ! k" using fill_gaps_true_iff[OF g k] by (simp add: t_def)
    with false_series_lengths_nth[OF k] obtain p q where
      pq: "p \<le> k" "k < q" "false_run s p q"
      by (auto simp: run_length_at_def)
    have long: "\<not> int (q - p) \<le> g"
      using fill_gaps_in_run[OF pq(3,1,2), of g] False by (simp add: t_def)
    have q: "q \<le> length s" using pq(3) by (rule false_run_bound)
    have inner: "\<forall>j\<in>{p..<q}. \<not> t ! j"
      unfolding t_def using fill_gaps_in_run[OF pq(3), of _ g] long
      by (metis atLeastLessThan_iff)
    have left: "p = 0 \<or> t ! (p - 1)"
    proof (cases "p = 0")
      case False
      then have "s ! (p - 1)" "p - 1 < length s" using pq q by (auto simp: false_run_def)
      then show ?thesis using fill_gaps_true_iff[OF g, of "p - 1" s] by (simp add: t_def)
    qed simp
    have right: "q = length t \<or> t ! q"
    proof (cases "q = length s")
      case False
      then have "s ! q" "q < length s" using pq q by (auto simp: false_run_def)
      then show ?thesis using fill_gaps_true_iff[OF g, of q s] by (simp add: t_def)
    qed (simp add: lt)
    have "false_run t p q"
      using pq(1,2) q inner left right unfolding false_run_def lt[symmetric] by auto
    from fill_gaps_in_run[OF this pq(1,2), of g] long False show ?thesis
      by (simp add: t_def)
  qed
qed


section \<open>Properties of the run analysis\<close>

text \<open>
  Claim C5. For a non-negative \<open>max_gap\<close>, the result of \<open>fill_gaps\<close> has the length of
  the series, and position \<open>i\<close> of it is true if and only if \<open>s ! i\<close> is true or \<open>i\<close> lies
  in a maximal run of consecutive false values (\<open>false_run s p q\<close>, the positions
  \<open>p..<q\<close>) of length at most \<open>max_gap\<close>. The same rule decides a trailing run, which
  ends at the end of the series instead of at a true value, and a series that is false
  throughout and no longer than \<open>max_gap\<close> becomes true throughout.
\<close>

theorem fill_gaps_short_runs:
  assumes "0 \<le> max_gap"
  shows "length (fill_gaps s max_gap) = length s \<and>
    (\<forall>i<length s. fill_gaps s max_gap ! i \<longleftrightarrow>
        s ! i \<or> (\<exists>p q. p \<le> i \<and> i < q \<and> false_run s p q \<and> int (q - p) \<le> max_gap)) \<and>
    (\<forall>p i. false_run s p (length s) \<and> p \<le> i \<and> i < length s \<longrightarrow>
        (fill_gaps s max_gap ! i \<longleftrightarrow> int (length s - p) \<le> max_gap)) \<and>
    ((\<forall>i<length s. \<not> s ! i) \<and> int (length s) \<le> max_gap \<longrightarrow>
        fill_gaps s max_gap = replicate (length s) True)"
proof (intro conjI allI impI)
  show "length (fill_gaps s max_gap) = length s" by simp
next
  fix i assume "i < length s"
  with assms show "fill_gaps s max_gap ! i \<longleftrightarrow>
        s ! i \<or> (\<exists>p q. p \<le> i \<and> i < q \<and> false_run s p q \<and> int (q - p) \<le> max_gap)"
    by (rule fill_gaps_true_iff)
next
  fix p i assume "false_run s p (length s) \<and> p \<le> i \<and> i < length s"
  then show "fill_gaps s max_gap ! i \<longleftrightarrow> int (length s - p) \<le> max_gap"
    using fill_gaps_in_run[of s p "length s" i max_gap] by simp
next
  assume "(\<forall>i<length s. \<not> s ! i) \<and> int (length s) \<le> max_gap"
  then show "fill_gaps s max_gap = replicate (length s) True"
    using fill_gaps_all_false[of s max_gap] by simp
qed

theorem fill_gaps_short_runs_witness:
  "fill_gaps [True, False, False, True, False, False, False, True, False] 2 ! 1 \<and>
   false_run [True, False, False, True, False, False, False, True, False] 1 3 \<and>
   fill_gaps [True, False, False, True, False, False, False, True, False] 2 ! 8 \<and>
   false_run [True, False, False, True, False, False, False, True, False] 8 9 \<and>
   fill_gaps [False, False] 2 = [True, True]"
proof -
  let ?s = "[True, False, False, True, False, False, False, True, False]"
  have g: "(0::int) \<le> 2" by simp
  have r1: "false_run ?s 1 3"
    by (simp add: false_run_def atLeastLessThan_def nth_Cons')
  have r3: "false_run ?s 8 9"
    by (simp add: false_run_def atLeastLessThan_def nth_Cons')
  note inst = fill_gaps_short_runs[OF g, of ?s]
  note middle = inst[THEN conjunct2, THEN conjunct1, rule_format]
  note trailing = inst[THEN conjunct2, THEN conjunct2, THEN conjunct1, rule_format]
  have "(1::nat) \<le> 1 \<and> (1::nat) < 3 \<and> false_run ?s 1 3 \<and> int (3 - 1) \<le> 2"
    using r1 by simp
  then have "\<exists>p q. p \<le> (1::nat) \<and> 1 < q \<and> false_run ?s p q \<and> int (q - p) \<le> 2"
    by blast
  then have a: "fill_gaps ?s 2 ! 1"
    using middle[of 1] by simp
  have len: "length ?s = 9" by simp
  have "false_run ?s 8 (length ?s) \<and> (8::nat) \<le> 8 \<and> 8 < length ?s"
    unfolding len using r3 by simp
  then have c: "fill_gaps ?s 2 ! 8"
    using trailing[of 8 8] by simp
  have "(\<forall>i<length [False, False]. \<not> [False, False] ! i) \<and> int (length [False, False]) \<le> 2"
    by (simp add: nth_Cons' )
  then have "fill_gaps [False, False] 2 = replicate (length [False, False]) True"
    using fill_gaps_short_runs[OF g, of "[False, False]"] by blast
  then have d: "fill_gaps [False, False] 2 = [True, True]"
    by (simp add: numeral_2_eq_2)
  from a c d r1 r3 show ?thesis by simp
qed

text \<open>
  Claim C7. For a non-negative \<open>g\<close>, \<open>fill_gaps\<close> is idempotent: bridging a bridged
  series again with the same \<open>g\<close> changes nothing.
\<close>

theorem fill_gaps_idempotent:
  assumes "0 \<le> g"
  shows "fill_gaps (fill_gaps s g) g = fill_gaps s g"
  using assms by (rule fill_gaps_idem)

theorem fill_gaps_idempotent_witness:
  "fill_gaps (fill_gaps [True, False, False, True, False, False, False, True] 2) 2
     = fill_gaps [True, False, False, True, False, False, False, True] 2"
  using fill_gaps_idempotent[of 2 "[True, False, False, True, False, False, False, True]"]
  by simp

text \<open>
  Claim C10. For a negative \<open>max_gap\<close> every position of the result of \<open>fill_gaps\<close> is
  false, the positions that are true in the series included: a run length is never
  negative, so no comparison with \<open>max_gap\<close> succeeds. True values are preserved only
  under the precondition \<open>0 \<le> max_gap\<close>.
\<close>

theorem fill_gaps_negative_max_gap:
  assumes "max_gap < 0"
  shows "fill_gaps s max_gap = replicate (length s) False"
proof (rule nth_equalityI)
  show "length (fill_gaps s max_gap) = length (replicate (length s) False)" by simp
next
  fix i assume "i < length (fill_gaps s max_gap)"
  then show "fill_gaps s max_gap ! i = replicate (length s) False ! i"
    using fill_gaps_negative[OF assms, of i s] by simp
qed

theorem fill_gaps_negative_max_gap_witness:
  "fill_gaps [True, False, True] (- 1) = [False, False, False]"
  using fill_gaps_negative_max_gap[of "- 1" "[True, False, True]"]
  by (simp add: numeral_3_eq_3)

text \<open>
  Claim C8. \<open>items_since_last_true\<close> returns, at each position \<open>i\<close>, the distance
  \<open>i - j\<close> to the most recent true position \<open>j\<close> at or before \<open>i\<close> (the position \<open>j\<close>
  is true and nothing after it up to \<open>i\<close> is), and \<open>i + 1\<close> when no position up to \<open>i\<close>
  is true. At index 0 the result is 0 for a true and 1 for a false entry; the result is
  0 exactly at the true positions; and over a stretch without a true value it does not
  decrease.
\<close>

theorem items_since_last_true_distance:
  "length (items_since_last_true s) = length s \<and>
   (\<forall>i<length s. \<forall>j\<le>i. s ! j \<and> (\<forall>m. j < m \<and> m \<le> i \<longrightarrow> \<not> s ! m) \<longrightarrow>
        items_since_last_true s ! i = int i - int j) \<and>
   (\<forall>i<length s. (\<forall>j\<le>i. \<not> s ! j) \<longrightarrow> items_since_last_true s ! i = int i + 1) \<and>
   (s \<noteq> [] \<longrightarrow> items_since_last_true s ! 0 = (if s ! 0 then 0 else 1)) \<and>
   (\<forall>i<length s. items_since_last_true s ! i = 0 \<longleftrightarrow> s ! i) \<and>
   (\<forall>i k. i \<le> k \<and> k < length s \<and> (\<forall>m. i < m \<and> m \<le> k \<longrightarrow> \<not> s ! m) \<longrightarrow>
        items_since_last_true s ! i \<le> items_since_last_true s ! k)"
proof (intro conjI allI impI)
  show "length (items_since_last_true s) = length s" by simp
next
  fix i j assume "i < length s" "j \<le> i" "s ! j \<and> (\<forall>m. j < m \<and> m \<le> i \<longrightarrow> \<not> s ! m)"
  then show "items_since_last_true s ! i = int i - int j"
    using since_last_true[of j i s] by (simp add: items_since_last_true_nth)
next
  fix i assume "i < length s" "\<forall>j\<le>i. \<not> s ! j"
  then show "items_since_last_true s ! i = int i + 1"
    using since_no_true[of i s] by (simp add: items_since_last_true_nth)
next
  assume "s \<noteq> []"
  then show "items_since_last_true s ! 0 = (if s ! 0 then 0 else 1)"
    by (simp add: items_since_last_true_nth)
next
  fix i assume "i < length s"
  then show "items_since_last_true s ! i = 0 \<longleftrightarrow> s ! i"
    by (simp add: items_since_last_true_nth since_zero_iff)
next
  fix i k assume "i \<le> k \<and> k < length s \<and> (\<forall>m. i < m \<and> m \<le> k \<longrightarrow> \<not> s ! m)"
  then show "items_since_last_true s ! i \<le> items_since_last_true s ! k"
    using since_run[of i k s] by (simp add: items_since_last_true_nth)
qed

theorem items_since_last_true_distance_witness:
  "items_since_last_true [False, False, True, False, False] ! 1 = 2 \<and>
   items_since_last_true [False, False, True, False, False] ! 4 = 2 \<and>
   items_since_last_true [False, False, True, False, False] ! 0 = 1 \<and>
   items_since_last_true [False, False, True, False, False] ! 2 = 0 \<and>
   items_since_last_true [False, False, True, False, False] ! 3
     \<le> items_since_last_true [False, False, True, False, False] ! 4"
proof -
  let ?s = "[False, False, True, False, False]"
  note inst = items_since_last_true_distance[of ?s]
  note recent = inst[THEN conjunct2, THEN conjunct1, rule_format]
  note none = inst[THEN conjunct2, THEN conjunct2, THEN conjunct1, rule_format]
  note first = inst[THEN conjunct2, THEN conjunct2, THEN conjunct2, THEN conjunct1, rule_format]
  note zero = inst[THEN conjunct2, THEN conjunct2, THEN conjunct2, THEN conjunct2,
      THEN conjunct1, rule_format]
  note mono = inst[THEN conjunct2, THEN conjunct2, THEN conjunct2, THEN conjunct2,
      THEN conjunct2, rule_format]
  have nth: "\<not> ?s ! 0" "\<not> ?s ! 1" "?s ! 2" "\<not> ?s ! 3" "\<not> ?s ! 4"
    by (simp_all add: nth_Cons')
  have le1: "\<not> ?s ! j" if "j \<le> 1" for j
  proof -
    from that have "j = 0 \<or> j = 1" by arith
    then show ?thesis using nth by auto
  qed
  have after2: "\<not> ?s ! m" if "2 < m \<and> m \<le> 4" for m
  proof -
    from that have "m = 3 \<or> m = 4" by arith
    then show ?thesis using nth by auto
  qed
  have after3: "\<not> ?s ! m" if "3 < m \<and> m \<le> 4" for m
  proof -
    from that have "m = 4" by arith
    then show ?thesis using nth by auto
  qed
  have a: "items_since_last_true ?s ! 1 = 2"
    using none[of 1] le1 by simp
  have b: "items_since_last_true ?s ! 4 = 2"
    using recent[of 4 2] nth(3) after2 by simp
  have c: "items_since_last_true ?s ! 0 = 1"
    using first nth(1) by simp
  have d: "items_since_last_true ?s ! 2 = 0"
    using zero[of 2] nth(3) by simp
  have e: "items_since_last_true ?s ! 3 \<le> items_since_last_true ?s ! 4"
    using mono[of 3 4] after3 by simp
  from a b c d e show ?thesis by simp
qed


section \<open>The infection period and the rain event\<close>

lemma precipitation_sample_rows [simp]: "map precipitation (sample_rows d h pts) = map fst pts"
  by (induction pts arbitrary: h) auto

lemma temperature_sample_rows [simp]: "map temperature_2m (sample_rows d h pts) = map snd pts"
  by (induction pts arbitrary: h) auto

lemma wet_rows_sample_rows [simp]:
  "wet_rows (sample_rows d h pts) = map (\<lambda>pt. 0 < fst pt) pts"
  by (induction pts arbitrary: h) (auto simp: wet_rows_def is_wet_def)

lemma length_sample_rows [simp]: "length (sample_rows d h pts) = length pts"
  by (induction pts arbitrary: h) auto

lemma wet_rows_length [simp]: "length (wet_rows df) = length df"
  by (simp add: wet_rows_def)

lemma label_from_length [simp]: "length (fst (label_from prev n xs)) = length xs"
  by (induction xs arbitrary: prev n) (simp_all add: Let_def split_beta)

lemma label_length [simp]: "length (fst (label xs)) = length xs"
  by (simp add: label_def)

lemma last_filter_upt:
  "\<exists>i<n. P i \<Longrightarrow> last (filter P [0..<n]) = Max {i. i < n \<and> P i}"
proof (induction n)
  case 0
  then show ?case by simp
next
  case (Suc n)
  show ?case
  proof (cases "P n")
    case True
    have "Max {i. i < Suc n \<and> P i} = n"
      using True by (intro Max_eqI) auto
    with True show ?thesis by simp
  next
    case False
    with Suc.prems have ex: "\<exists>i<n. P i" by (auto simp: less_Suc_eq)
    have "{i. i < Suc n \<and> P i} = {i. i < n \<and> P i}"
      using False by (auto simp: less_Suc_eq)
    with Suc.IH[OF ex] False show ?thesis by simp
  qed
qed

lemma filter_upt_empty: "filter P [0..<n] = [] \<longleftrightarrow> \<not> (\<exists>i<n. P i)"
  by (auto simp: filter_empty_conv)

lemma wet_period_found:
  assumes "\<exists>i<length df. fst (label (fill_gaps (wet_rows df) 4)) ! i = 2 \<and> wet_rows df ! i"
  shows "compute_duration_and_temperature_wet_period df =
     (count_true
        (take (Max {i. i < length df \<and> fst (label (fill_gaps (wet_rows df) 4)) ! i = 2 \<and>
                       wet_rows df ! i} + 1) (wet_rows df)),
      Some (mean
        (take (Max {i. i < length df \<and> fst (label (fill_gaps (wet_rows df) 4)) ! i = 2 \<and>
                       wet_rows df ! i} + 1) (map temperature_2m df))))"
proof -
  define P where "P = (\<lambda>i. fst (label (fill_gaps (wet_rows df) 4)) ! i = 2 \<and> wet_rows df ! i)"
  have ex: "\<exists>i<length df. P i" using assms by (simp add: P_def)
  then have ne: "filter P [0..<length df] \<noteq> []" by (simp add: filter_upt_empty)
  have "compute_duration_and_temperature_wet_period df =
      (count_true (take (last (filter P [0..<length df]) + 1) (wet_rows df)),
       Some (mean (take (last (filter P [0..<length df]) + 1) (map temperature_2m df))))"
    using ne by (simp add: compute_duration_and_temperature_wet_period_def Let_def P_def)
  then show ?thesis
    unfolding last_filter_upt[of "length df" P, OF ex] by (simp add: P_def)
qed

lemma wet_period_absent:
  assumes "\<not> (\<exists>i<length df. fst (label (fill_gaps (wet_rows df) 4)) ! i = 2 \<and> wet_rows df ! i)"
  shows "compute_duration_and_temperature_wet_period df = (0, None)"
proof -
  have "filter (\<lambda>i. fst (label (fill_gaps (wet_rows df) 4)) ! i = 2 \<and> wet_rows df ! i)
          [0..<length df] = []"
    using assms by (simp add: filter_upt_empty)
  then show ?thesis
    by (simp add: compute_duration_and_temperature_wet_period_def Let_def)
qed

lemma rain_day_filled:
  "fill_gaps [False, False, True, False, False, True, False, False, False, False] 2
     = [True, True, True, True, True, True, False, False, False, False]"
  by code_simp

lemma rain_event_example:
  assumes "map precipitation df = [0, 0, 0.3, 0, 0, 0.4, 0, 0, 0, 0]"
  shows "is_rain_event df 0.2 2
           = [True, True, True, True, True, True, False, False, False, False]"
  by (simp add: is_rain_event_def assms rain_day_filled)

lemma rossi_filled:
  "fill_gaps (replicate 8 True @ replicate 2 False @ replicate 6 True @ replicate 8 False @
      replicate 12 True) 4
     = replicate 16 True @ replicate 8 False @ replicate 12 True"
  by code_simp

lemma rossi_labels:
  "fst (label (replicate 16 True @ replicate 8 False @ replicate 12 True))
     = replicate 16 1 @ replicate 8 0 @ replicate 12 2"
  by code_simp

lemma rossi_indices:
  "filter (\<lambda>i. (replicate 16 1 @ replicate 8 0 @ replicate 12 (2::int)) ! i = 2 \<and>
        (replicate 8 True @ replicate 2 False @ replicate 6 True @ replicate 8 False @
      replicate 12 True) ! i = True) [0..<36] = [24..<36]"
  by code_simp

lemma rossi_count:
  "count_true (replicate 8 True @ replicate 2 False @ replicate 6 True @ replicate 8 False @
      replicate 12 True) = 26"
  by (simp add: count_true_def sum_list_replicate)

lemma rossi_result:
  assumes "wet_rows df = replicate 8 True @ replicate 2 False @ replicate 6 True @
      replicate 8 False @ replicate 12 True"
  shows "compute_duration_and_temperature_wet_period df =
           (26, Some (mean (take 36 (map temperature_2m df))))"
proof -
  have "length (wet_rows df) = 36" unfolding assms by simp
  then have len: "length df = 36" by simp
  have idx: "filter (\<lambda>i. fst (label (fill_gaps (wet_rows df) 4)) ! i = 2 \<and> wet_rows df ! i = True)
               [0..<length (wet_rows df)] = [24..<36]"
    unfolding wet_rows_length len unfolding assms rossi_filled rossi_labels
    by (rule rossi_indices)
  have take: "take 36 (wet_rows df) = wet_rows df" using len by simp
  show ?thesis
    unfolding compute_duration_and_temperature_wet_period_def Let_def idx
    by (simp add: take) (simp add: assms rossi_count)
qed

lemma wet_rows_rossi_window:
  "wet_rows rossi_window = replicate 8 True @ replicate 2 False @ replicate 6 True @
      replicate 8 False @ replicate 12 True"
  by (simp add: rossi_window_def)

lemma mean_rossi_window:
  "mean (take 36 (map temperature_2m rossi_window)) = 20"
  "mean (take 16 (map temperature_2m rossi_window)) = 0"
  by (simp_all add: rossi_window_def mean_def sum_list_replicate)

lemma rossi_window_last_hour:
  "fst (label (fill_gaps (wet_rows rossi_window) 4)) ! 35 = 2 \<and> wet_rows rossi_window ! 35"
  unfolding wet_rows_rossi_window rossi_filled rossi_labels by (simp add: nth_append)

lemma wet_rows_bridged_window: "wet_rows bridged_window = [True, True, False, True]"
  unfolding bridged_window_def wet_rows_sample_rows by simp

lemma bridged_labels: "fst (label (fill_gaps [True, True, False, True] 4)) = [1, 1, 1, 1]"
  by code_simp

lemma length_bridged_window: "length bridged_window = 4"
  by (simp add: bridged_window_def)

text \<open>
  Claim C1. When some hour carries label 2 in the labelling of \<open>fill_gaps wet 4\<close> and is
  wet in the raw series, \<open>compute_duration_and_temperature_wet_period\<close> returns, for the
  greatest such index \<open>last_index\<close>, the number of raw wet hours among the indices
  \<open>0..last_index\<close> and the mean of the temperature over all of these indices, wet
  or not.
\<close>

theorem wet_period_prefix:
  assumes "\<exists>i<length df. fst (label (fill_gaps (wet_rows df) 4)) ! i = 2 \<and> wet_rows df ! i"
  shows "compute_duration_and_temperature_wet_period df =
     (count_true
        (take (Max {i. i < length df \<and> fst (label (fill_gaps (wet_rows df) 4)) ! i = 2 \<and>
                       wet_rows df ! i} + 1) (wet_rows df)),
      Some (mean
        (take (Max {i. i < length df \<and> fst (label (fill_gaps (wet_rows df) 4)) ! i = 2 \<and>
                       wet_rows df ! i} + 1) (map temperature_2m df))))"
  using assms by (rule wet_period_found)

theorem wet_period_prefix_witness:
  "compute_duration_and_temperature_wet_period rossi_window =
     (count_true
        (take (Max {i. i < length rossi_window \<and>
                       fst (label (fill_gaps (wet_rows rossi_window) 4)) ! i = 2 \<and>
                       wet_rows rossi_window ! i} + 1) (wet_rows rossi_window)),
      Some (mean
        (take (Max {i. i < length rossi_window \<and>
                       fst (label (fill_gaps (wet_rows rossi_window) 4)) ! i = 2 \<and>
                       wet_rows rossi_window ! i} + 1) (map temperature_2m rossi_window))))"
proof -
  have "35 < length rossi_window" by (simp add: rossi_window_def)
  with rossi_window_last_hour
  have "\<exists>i<length rossi_window.
          fst (label (fill_gaps (wet_rows rossi_window) 4)) ! i = 2 \<and> wet_rows rossi_window ! i"
    by blast
  then show ?thesis by (rule wet_period_prefix)
qed

text \<open>
  Claim C2, as the code has it. For a window of 36 hours with the wetness pattern 8 wet,
  2 dry, 6 wet, 8 dry, 12 wet, the second period is the last spell of 12 wet hours, so
  the prefix ends at index 35: \<open>wet_hours\<close> is 26 and the temperature is averaged over all
  36 hours, \<open>temperature[0:36]\<close>, not over the first 16.
\<close>

theorem rossi_example:
  assumes "wet_rows df = replicate 8 True @ replicate 2 False @ replicate 6 True @
      replicate 8 False @ replicate 12 True"
  shows "compute_duration_and_temperature_wet_period df =
           (26, Some (mean (take 36 (map temperature_2m df))))"
  using assms by (rule rossi_result)

theorem rossi_example_witness:
  "compute_duration_and_temperature_wet_period rossi_window = (26, Some 20)"
  using rossi_example[OF wet_rows_rossi_window] by (simp add: mean_rossi_window)

text \<open>
  The claim C2 as stated fails: in \<open>rossi_window\<close> the first 16 hours are at 0 degrees and
  the last 20 at 36 degrees; the mean of the first 16 hours is 0, the result is 20.
\<close>

theorem rossi_example_counterexample:
  "wet_rows rossi_window = replicate 8 True @ replicate 2 False @ replicate 6 True @
      replicate 8 False @ replicate 12 True \<and>
   compute_duration_and_temperature_wet_period rossi_window
     \<noteq> (26, Some (mean (take 16 (map temperature_2m rossi_window))))"
  using rossi_result[OF wet_rows_rossi_window]
  by (simp add: wet_rows_rossi_window mean_rossi_window)

text \<open>
  Claim C3, as the code has it. For a day with the precipitation values
  \<open>[0, 0, 0.3, 0, 0, 0.4, 0, 0, 0, 0]\<close>, \<open>is_rain_event\<close> with threshold 0.2 and
  \<open>max_gap\<close> 2 is true at the indices 0 to 5 and false at 6 to 9: the two dry hours before
  the first rain hour are a false run of length 2 and are filled like the two between
  the rain hours.
\<close>

theorem rain_event_day:
  assumes "map precipitation df = [0, 0, 0.3, 0, 0, 0.4, 0, 0, 0, 0]"
  shows "is_rain_event df 0.2 2
           = [True, True, True, True, True, True, False, False, False, False]"
  using assms by (rule rain_event_example)

theorem rain_event_day_witness:
  "is_rain_event rain_day 0.2 2
     = [True, True, True, True, True, True, False, False, False, False]"
proof -
  have "map precipitation rain_day = [0, 0, 0.3, 0, 0, 0.4, 0, 0, 0, 0]"
    by (simp add: rain_day_def)
  then show ?thesis by (rule rain_event_day)
qed

text \<open>
  The claim C3 as stated fails on \<open>rain_day\<close>: the result is not the series that is true
  exactly at the indices 2, 3, 4 and 5, since the indices 0 and 1 are true as well.
\<close>

theorem rain_event_day_counterexample:
  "map precipitation rain_day = [0, 0, 0.3, 0, 0, 0.4, 0, 0, 0, 0] \<and>
   is_rain_event rain_day 0.2 2
     \<noteq> [False, False, True, True, True, True, False, False, False, False] \<and>
   is_rain_event rain_day 0.2 2 ! 0 \<and> is_rain_event rain_day 0.2 2 ! 1"
proof -
  have p: "map precipitation rain_day = [0, 0, 0.3, 0, 0, 0.4, 0, 0, 0, 0]"
    by (simp add: rain_day_def)
  show ?thesis unfolding rain_event_example[OF p] using p by simp
qed

text \<open>
  Claim C6. When no hour both carries label 2 in the labelling of \<open>fill_gaps wet 4\<close> and
  is wet in the raw series, \<open>compute_duration_and_temperature_wet_period\<close> returns
  \<open>wet_hours = 0\<close> and no temperature, as an ordinary result.
\<close>

theorem wet_period_none:
  assumes "\<not> (\<exists>i<length df. fst (label (fill_gaps (wet_rows df) 4)) ! i = 2 \<and> wet_rows df ! i)"
  shows "compute_duration_and_temperature_wet_period df = (0, None)"
  using assms by (rule wet_period_absent)

theorem wet_period_none_witness:
  "compute_duration_and_temperature_wet_period bridged_window = (0, None)"
proof -
  have "\<not> (\<exists>i<length bridged_window.
          fst (label (fill_gaps (wet_rows bridged_window) 4)) ! i = 2 \<and>
          wet_rows bridged_window ! i)"
    unfolding wet_rows_bridged_window bridged_labels length_bridged_window
    by (auto simp: nth_Cons')
  then show ?thesis by (rule wet_period_none)
qed


section \<open>The daily and the hourly summary\<close>

lemma loc_error: "loc df key = Inl e \<Longrightarrow> e = KeyError"
  by (auto simp: loc_def split: if_splits list.splits)

lemma loc_Frame: "loc df key = Inr (Frame f) \<Longrightarrow> f = day_rows df key"
  by (auto simp: loc_def split: if_splits list.splits)

lemma loc_Series: "loc df key = Inr (Series row) \<Longrightarrow> day_resolution df"
  by (auto simp: loc_def split: if_splits list.splits)

lemma loc_no_rows:
  "day_rows df key = [] \<Longrightarrow>
   loc df key = (if day_resolution df \<or> beyond_index df key then Inl KeyError
                 else Inr (Frame []))"
  by (simp add: loc_def)






lemma weather_summary_row_empty:
  "weather_summary_row day [] =
     \<lparr>Date = day, LeafWetness = 0, HasRain = 0, Precipitation = 0, Temperature = None,
      HumidDuration = 0\<rparr>"
  by (simp add: weather_summary_row_def compute_leaf_wetness_duration_def wet_rows_def
      count_true_def any_def is_rain_event_def fill_gaps_def false_series_lengths_def
      column_mean_def)

lemma weather_summary_loop_error:
  "weather_summary_loop df dates result_data = Inl e \<Longrightarrow>
   e = KeyError \<or> day_resolution df \<and> e = TypeError"
proof (induction dates arbitrary: result_data)
  case Nil
  then show ?case by simp
next
  case (Cons d dates)
  then show ?case
    by (auto split: sum.splits selection.splits dest: loc_error loc_Series)
qed

lemma weather_summary_loop_rows:
  "weather_summary_loop df dates result_data = Inr rows \<Longrightarrow>
   rows = result_data @ map (\<lambda>d. weather_summary_row d (day_rows df d)) dates"
proof (induction dates arbitrary: result_data)
  case Nil
  then show ?case by simp
next
  case (Cons d dates)
  show ?case
  proof (cases "loc df d")
    case (Inl e)
    with Cons.prems show ?thesis by simp
  next
    case (Inr sel)
    show ?thesis
    proof (cases sel)
      case (Frame f)
      with Inr have f: "f = day_rows df d" by (simp add: loc_Frame)
      from Cons.prems Inr Frame
      have "weather_summary_loop df dates (result_data @ [weather_summary_row d f]) = Inr rows"
        by simp
      from Cons.IH[OF this] show ?thesis by (simp add: f)
    next
      case (Series row)
      with Inr Cons.prems show ?thesis by simp
    qed
  qed
qed

lemma weather_summary_loop_raises:
  "d \<in> set dates \<Longrightarrow> loc df d = Inl KeyError \<Longrightarrow>
   \<exists>e. weather_summary_loop df dates result_data = Inl e"
proof (induction dates arbitrary: result_data)
  case Nil
  then show ?case by simp
next
  case (Cons a dates)
  then show ?case
    by (cases "a = d") (auto split: sum.splits selection.splits)
qed

lemma summarize_weather_not_missing: "summarize_weather dates df \<noteq> Inl MissingDataError"
  using weather_summary_loop_error[of df dates "[]" MissingDataError]
  by (auto simp: summarize_weather_def)


lemma is_rain_event_length [simp]: "length (is_rain_event df threshold max_gap) = length df"
  by (simp add: is_rain_event_def)





lemma day_rows_two_days:
  "day_rows two_days 3 = sample_rows 3 22 [(0, 10), (0.5, 11)]"
  "day_rows two_days 4 = sample_rows 4 0 [(0.1, 9)]"
  "day_rows two_days 5 = []"
  by (simp_all add: two_days_def day_rows_def)

lemma two_days_resolution: "\<not> day_resolution two_days"
  by (simp add: two_days_def day_resolution_def)

lemma two_days_beyond: "beyond_index two_days 5"
  by (simp add: two_days_def beyond_index_def)

lemma day_rows_holed: "day_rows holed 4 = []"
  by (simp add: holed_def day_rows_def)

lemma holed_lookup: "\<not> (day_resolution holed \<or> beyond_index holed 4)"
  by (simp add: holed_def day_resolution_def beyond_index_def)



text \<open>
  Claim C4, as the code has it. \<open>summarize_weather\<close> checks no slice itself and the
  source has no \<open>MissingDataError\<close>, so for a requested day without rows in the series
  the lookup alone decides. When the lookup raises, which it does for an index of day
  resolution and for a day beyond a sorted index, the call fails with its \<open>KeyError\<close>
  (or, for an index of day resolution, with the \<open>TypeError\<close> of an earlier requested
  day) and returns no summary. Otherwise the lookup returns an empty frame: requested
  alone the day yields the row of zeros with a NaN temperature, and whenever the call
  returns, that row stands at each position where the day was requested.
\<close>

theorem summarize_weather_missing_day:
  assumes "day \<in> set dates" and "day_rows df day = []"
  shows "summarize_weather dates df \<noteq> Inl MissingDataError \<and>
    (day_resolution df \<or> beyond_index df day \<longrightarrow>
       summarize_weather dates df = Inl KeyError \<or>
       day_resolution df \<and> summarize_weather dates df = Inl TypeError) \<and>
    (\<not> (day_resolution df \<or> beyond_index df day) \<longrightarrow>
       summarize_weather [day] df =
         Inr [\<lparr>Date = day, LeafWetness = 0, HasRain = 0, Precipitation = 0,
               Temperature = None, HumidDuration = 0\<rparr>] \<and>
       (\<forall>rows. summarize_weather dates df = Inr rows \<longrightarrow>
          length rows = length dates \<and>
          (\<forall>i<length dates. dates ! i = day \<longrightarrow>
             rows ! i = \<lparr>Date = day, LeafWetness = 0, HasRain = 0, Precipitation = 0,
                          Temperature = None, HumidDuration = 0\<rparr>)))"
proof (intro conjI impI allI)
  show "summarize_weather dates df \<noteq> Inl MissingDataError"
    by (rule summarize_weather_not_missing)
next
  assume "day_resolution df \<or> beyond_index df day"
  with assms(2) have "loc df day = Inl KeyError" by (simp add: loc_no_rows)
  with assms(1) obtain e where e: "weather_summary_loop df dates [] = Inl e"
    using weather_summary_loop_raises by blast
  with weather_summary_loop_error[OF e]
  show "summarize_weather dates df = Inl KeyError \<or>
       day_resolution df \<and> summarize_weather dates df = Inl TypeError"
    by (auto simp: summarize_weather_def)
next
  assume "\<not> (day_resolution df \<or> beyond_index df day)"
  with assms(2) have "loc df day = Inr (Frame [])" by (simp add: loc_no_rows)
  then show "summarize_weather [day] df =
         Inr [\<lparr>Date = day, LeafWetness = 0, HasRain = 0, Precipitation = 0,
               Temperature = None, HumidDuration = 0\<rparr>]"
    by (simp add: summarize_weather_def weather_summary_row_empty)
next
  fix rows assume "summarize_weather dates df = Inr rows"
  then have "rows = map (\<lambda>d. weather_summary_row d (day_rows df d)) dates"
    using weather_summary_loop_rows[of df dates "[]" rows] by (simp add: summarize_weather_def)
  then show "length rows = length dates" by simp
next
  fix rows i
  assume "summarize_weather dates df = Inr rows" and i: "i < length dates" "dates ! i = day"
  then have "rows = map (\<lambda>d. weather_summary_row d (day_rows df d)) dates"
    using weather_summary_loop_rows[of df dates "[]" rows] by (simp add: summarize_weather_def)
  with i assms(2) show "rows ! i = \<lparr>Date = day, LeafWetness = 0, HasRain = 0,
      Precipitation = 0, Temperature = None, HumidDuration = 0\<rparr>"
    by (simp add: weather_summary_row_empty)
qed

theorem summarize_weather_missing_day_witness:
  "summarize_weather [3, 5] two_days = Inl KeyError \<and>
   summarize_weather [4] holed =
     Inr [\<lparr>Date = 4, LeafWetness = 0, HasRain = 0, Precipitation = 0, Temperature = None,
           HumidDuration = 0\<rparr>]"
proof -
  have "(5::nat) \<in> set [3, 5]" by simp
  from summarize_weather_missing_day[OF this day_rows_two_days(3)]
  have "summarize_weather [3, 5] two_days = Inl KeyError"
    using two_days_beyond two_days_resolution by blast
  moreover have "(4::nat) \<in> set [4]" by simp
  from summarize_weather_missing_day[OF this day_rows_holed]
  have "summarize_weather [4] holed =
     Inr [\<lparr>Date = 4, LeafWetness = 0, HasRain = 0, Precipitation = 0, Temperature = None,
           HumidDuration = 0\<rparr>]"
    using holed_lookup by blast
  ultimately show ?thesis by blast
qed

text \<open>
  The claim C4 as stated fails in both parts. Day 5 has no rows in \<open>two_days\<close> and lies
  beyond it: the error is \<open>KeyError\<close>, not \<open>MissingDataError\<close>. Day 4 has no rows in
  \<open>holed\<close> and lies inside it: no error is raised and a row of zeros is returned.
\<close>

theorem summarize_weather_missing_day_counterexample:
  "day_rows two_days 5 = [] \<and> summarize_weather [5] two_days = Inl KeyError \<and>
   day_rows holed 4 = [] \<and>
   summarize_weather [4] holed =
     Inr [\<lparr>Date = 4, LeafWetness = 0, HasRain = 0, Precipitation = 0, Temperature = None,
           HumidDuration = 0\<rparr>]"
proof -
  have "loc two_days 5 = Inl KeyError"
    using loc_no_rows[OF day_rows_two_days(3)] two_days_beyond by simp
  moreover have "loc holed 4 = Inr (Frame [])"
    using loc_no_rows[OF day_rows_holed] holed_lookup by simp
  ultimately show ?thesis
    by (simp add: summarize_weather_def day_rows_two_days day_rows_holed
        weather_summary_row_empty)
qed




end
